theory Spec2Isabelle
  imports Main "HOL-Library.Sublist"
begin

section \<open>Python values\<close>

text \<open>
  The portal answers with JSON, and the code handles the decoded payload as untyped
  Python objects (\<open>Dict[str, Any]\<close>).  A decoded payload is a \<open>pyval\<close>.  An
  integer is an \<open>int\<close>; a floating point number is given by the text Python writes
  for it (\<open>1.5\<close>, \<open>1e+16\<close>, \<open>nan\<close>), which determines the number; a dictionary is
  the list of its items in insertion order, with keys that are strings.
  A \<open>string\<close> is a list of 8-bit characters: Python text is held as the bytes of its
  UTF-8 encoding, so a character outside ASCII takes several \<open>char\<close>s.  Where the
  code counts or cuts characters the model counts and cuts characters, not bytes.
  What Python's Unicode tables decide for text outside ASCII (upper and lower case,
  which characters \<open>repr\<close> escapes) is not part of the repository and is left
  unspecified: the properties proved hold whatever the tables say.
\<close>

datatype pyval =
    PNone
  | PBool bool
  | PInt int
  | PFloat string
  | PStr string
  | PList "pyval list"
  | PDict "(string \<times> pyval) list"

text \<open>The exceptions the modelled code raises or lets escape.\<close>

datatype exn =
    ValueError string
  | ImportError string
  | TypeError
  | AttributeError
  | OSError

text \<open>Truth value of an object, as \<open>if x:\<close> and \<open>not x\<close> test it.\<close>

fun truthy :: "pyval \<Rightarrow> bool" where
  "truthy PNone = False"
| "truthy (PBool b) = b"
| "truthy (PInt n) = (n \<noteq> 0)"
| "truthy (PFloat t) = (t \<noteq> ''0.0'' \<and> t \<noteq> ''-0.0'')"
| "truthy (PStr s) = (s \<noteq> [])"
| "truthy (PList xs) = (xs \<noteq> [])"
| "truthy (PDict kvs) = (kvs \<noteq> [])"

text \<open>\<open>d.get(key, default)\<close> on the items of a dictionary.\<close>

definition dict_get :: "(string \<times> pyval) list \<Rightarrow> string \<Rightarrow> pyval \<Rightarrow> pyval" where
  "dict_get kvs k dflt = (case map_of kvs k of None \<Rightarrow> dflt | Some v \<Rightarrow> v)"

text \<open>
  \<open>x.get(key, default)\<close> on any object: only a dictionary has the method, every
  other object raises \<open>AttributeError\<close>.
\<close>

fun py_get :: "pyval \<Rightarrow> string \<Rightarrow> pyval \<Rightarrow> exn + pyval" where
  "py_get (PDict kvs) k dflt = Inr (dict_get kvs k dflt)"
| "py_get _ k dflt = Inl AttributeError"

text \<open>
  \<open>for item in x\<close>: a list yields its elements, a dictionary its keys, a string its
  characters (one string per character, which for a character outside ASCII is its
  lead byte with the continuation bytes that follow); \<open>None\<close>, booleans and numbers
  are not iterable (\<open>TypeError\<close>).
\<close>

fun is_ascii_char :: "char \<Rightarrow> bool" where
  "is_ascii_char (Char b0 b1 b2 b3 b4 b5 b6 b7) = (\<not> b7)"

fun is_continuation :: "char \<Rightarrow> bool" where
  "is_continuation (Char b0 b1 b2 b3 b4 b5 b6 b7) = (b7 \<and> \<not> b6)"

definition is_ascii :: "string \<Rightarrow> bool" where
  "is_ascii s = list_all is_ascii_char s"

text \<open>The characters of a text: every byte that is no continuation byte starts one.\<close>

function characters :: "string \<Rightarrow> string list" where
  "characters [] = []"
| "characters (c # cs) =
     (c # takeWhile is_continuation cs) # characters (dropWhile is_continuation cs)"
  by pat_completeness auto
termination
  by (relation "measure length") (auto simp: length_dropWhile_le less_Suc_eq_le)



fun py_iter :: "pyval \<Rightarrow> exn + pyval list" where
  "py_iter (PList xs) = Inr xs"
| "py_iter (PDict kvs) = Inr (map (\<lambda>kv. PStr (fst kv)) kvs)"
| "py_iter (PStr s) = Inr (map PStr (characters s))"
| "py_iter _ = Inl TypeError"

text \<open>Sequencing of computations that may raise.\<close>

definition ebind :: "exn + 'a \<Rightarrow> ('a \<Rightarrow> exn + 'b) \<Rightarrow> exn + 'b" where
  "ebind m f = (case m of Inl e \<Rightarrow> Inl e | Inr x \<Rightarrow> f x)"


subsection \<open>Text of a value: \<open>str(x)\<close> and \<open>f"{x}"\<close>\<close>

fun show_nat :: "nat \<Rightarrow> string" where
  "show_nat n =
     (if n < 10 then [''0123456789'' ! n]
      else show_nat (n div 10) @ [''0123456789'' ! (n mod 10)])"

definition show_int :: "int \<Rightarrow> string" where
  "show_int i = (if i < 0 then CHR ''-'' # show_nat (nat (- i)) else show_nat (nat i))"

definition hex_digit :: "nat \<Rightarrow> char" where
  "hex_digit n = ''0123456789abcdef'' ! n"

text \<open>
  \<open>repr\<close> of a string of ASCII text: single quotes, unless the text holds a single
  quote and no double quote; the quote and the backslash are escaped, tab, newline
  and carriage return are written \<open>\t\<close>, \<open>\n\<close>, \<open>\r\<close>, and every other control
  character as \<open>\xhh\<close>.  For text with characters outside ASCII the result depends
  on which of them Python holds to be printable, and is left unspecified.
\<close>

definition repr_non_ascii :: "string \<Rightarrow> string" where
  "repr_non_ascii = undefined"

definition repr_char :: "char \<Rightarrow> char \<Rightarrow> string" where
  "repr_char q c =
     (let n = (of_char c :: nat) in
      if c = q \<or> c = CHR 0x5C then [CHR 0x5C, c]
      else if n = 9 then [CHR 0x5C, CHR ''t'']
      else if n = 10 then [CHR 0x5C, CHR ''n'']
      else if n = 13 then [CHR 0x5C, CHR ''r'']
      else if n < 32 \<or> n = 127
        then [CHR 0x5C, CHR ''x'', hex_digit (n div 16), hex_digit (n mod 16)]
      else [c])"

definition repr_str :: "string \<Rightarrow> string" where
  "repr_str s =
     (if is_ascii s then
        (let q = (if CHR 0x27 \<in> set s \<and> CHR 0x22 \<notin> set s then CHR 0x22 else CHR 0x27)
         in [q] @ concat (map (repr_char q) s) @ [q])
      else repr_non_ascii s)"

fun join :: "string \<Rightarrow> string list \<Rightarrow> string" where
  "join sep [] = []"
| "join sep [x] = x"
| "join sep (x # y # ys) = x @ sep @ join sep (y # ys)"

fun py_repr :: "pyval \<Rightarrow> string" where
  "py_repr PNone = ''None''"
| "py_repr (PBool b) = (if b then ''True'' else ''False'')"
| "py_repr (PInt i) = show_int i"
| "py_repr (PFloat t) = t"
| "py_repr (PStr s) = repr_str s"
| "py_repr (PList xs) = ''['' @ join '', '' (map py_repr xs) @ '']''"
| "py_repr (PDict kvs) =
     ''{'' @ join '', '' (map (\<lambda>kv. repr_str (fst kv) @ '': '' @ py_repr (snd kv)) kvs) @ ''}''"

text \<open>\<open>str(x)\<close>, which is also what an f-string writes for \<open>{x}\<close>.\<close>

fun py_str :: "pyval \<Rightarrow> string" where
  "py_str (PStr s) = s"
| "py_str v = py_repr v"


definition lower_char :: "char \<Rightarrow> char" where
  "lower_char c =
     (case map_of (zip ''ABCDEFGHIJKLMNOPQRSTUVWXYZ'' ''abcdefghijklmnopqrstuvwxyz'') c of
        Some l \<Rightarrow> l
      | None \<Rightarrow> c)"


definition lower_non_ascii :: "string \<Rightarrow> string" where
  "lower_non_ascii = undefined"


definition lower :: "string \<Rightarrow> string" where
  "lower s = (if is_ascii s then map lower_char s else lower_non_ascii s)"

text \<open>
  \<open>str.strip\<close>.  The code strips one text only, the document template, which
  starts and ends with ASCII characters; the white space of ASCII is what the model
  takes off.
\<close>

definition is_space :: "char \<Rightarrow> bool" where
  "is_space c =
     (c \<in> set [CHR 0x09, CHR 0x0A, CHR 0x0B, CHR 0x0C, CHR 0x0D,
                 CHR 0x1C, CHR 0x1D, CHR 0x1E, CHR 0x1F, CHR 0x20])"

definition py_strip :: "string \<Rightarrow> string" where
  "py_strip s = rev (dropWhile is_space (rev (dropWhile is_space s)))"

text \<open>\<open>d[key] = value\<close> on the items of a dictionary.\<close>

fun dict_set :: "'k \<Rightarrow> 'v \<Rightarrow> ('k \<times> 'v) list \<Rightarrow> ('k \<times> 'v) list" where
  "dict_set k v [] = [(k, v)]"
| "dict_set k v (kv # kvs) = (if fst kv = k then (k, v) # kvs else kv # dict_set k v kvs)"

section \<open>Code tables of the enhanced printer\<close>





section \<open>The environment and the state of a run\<close>

text \<open>
  Everything outside the process is an input of the model.  The portal is a function
  from the number of requests sent so far and the request to what comes back; the
  clock is a function from the number of readings taken so far; the operating system
  decides which file operations and which print commands fail.  Library functions that
  the repository calls and does not define (\<open>urllib.parse.unquote\<close>, \<open>json.loads\<close>,
  \<open>os.path.join\<close>, \<open>os.path.abspath\<close>) are fields of the environment as well.
  Request headers and payloads, the operator's one-time code and the text printed on
  the console do not steer the control flow and are left out.
\<close>

datatype http_method = GET | POST

record request =
  req_method :: http_method
  req_url :: string

text \<open>
  A cookie, and the cookie jar of the session.  The jar of the HTTP library is a
  dictionary of domains, each a dictionary of paths, each a dictionary of names: two
  cookies of the same name live side by side when their domains or paths differ, and
  the jar is gone through domain by domain, path by path, name by name, each in the
  order in which it came into the jar.
\<close>

record cookie =
  cookie_domain :: string
  cookie_path :: string
  cookie_name :: string
  cookie_value :: string

type_synonym jar = "(string \<times> (string \<times> (string \<times> string) list) list) list"

definition jar_paths :: "jar \<Rightarrow> string \<Rightarrow> (string \<times> (string \<times> string) list) list" where
  "jar_paths j d = (case map_of j d of None \<Rightarrow> [] | Some ps \<Rightarrow> ps)"

definition jar_names :: "jar \<Rightarrow> string \<Rightarrow> string \<Rightarrow> (string \<times> string) list" where
  "jar_names j d p = (case map_of (jar_paths j d) p of None \<Rightarrow> [] | Some ns \<Rightarrow> ns)"

text \<open>\<open>jar.set_cookie(cookie)\<close>.\<close>

definition jar_set :: "cookie \<Rightarrow> jar \<Rightarrow> jar" where
  "jar_set c j =
     dict_set (cookie_domain c)
       (dict_set (cookie_path c)
          (dict_set (cookie_name c) (cookie_value c)
             (jar_names j (cookie_domain c) (cookie_path c)))
          (jar_paths j (cookie_domain c)))
       j"

text \<open>\<open>for cookie in jar\<close>: the cookies in the order the jar is gone through.\<close>

definition jar_cookies :: "jar \<Rightarrow> cookie list" where
  "jar_cookies j =
     concat (map (\<lambda>dp.
       concat (map (\<lambda>pn.
         map (\<lambda>nv. \<lparr>cookie_domain = fst dp, cookie_path = fst pn,
                        cookie_name = fst nv, cookie_value = snd nv\<rparr>) (snd pn)) (snd dp))) j)"

text \<open>
  \<open>session.cookies.set(name, value)\<close>: the cookie gets the empty domain and the
  path \<open>/\<close>.
\<close>

definition jar_set_value :: "string \<times> string \<Rightarrow> jar \<Rightarrow> jar" where
  "jar_set_value nv j =
     jar_set \<lparr>cookie_domain = [], cookie_path = ''/'', cookie_name = fst nv,
              cookie_value = snd nv\<rparr> j"

text \<open>
  An answer of the portal: its status, its body when that is JSON, and the cookies
  of the answer that the jar takes in.
\<close>

record response =
  status_code :: nat
  json_body :: "pyval option"
  new_cookies :: "cookie list"

datatype http_result = ConnectionFailed | Responded response

datatype proc_result = Exited int | TimedOut | LaunchFailed

record datetime =
  dt_year :: nat
  dt_month :: nat
  dt_day :: nat
  dt_hour :: nat
  dt_minute :: nat
  dt_second :: nat

text \<open>
  What a report file holds: the markup, or the content handed to the page-layout
  library (see below).
\<close>

datatype flowable =
    Paragraph string string
  | Spacer nat nat
  | Table "string list list"
  | PageBreak

datatype file_content = Markup string | Pages "flowable list" | PagesOfMarkup string

record env =
  server :: "nat \<Rightarrow> request \<Rightarrow> http_result"
  clock :: "nat \<Rightarrow> datetime"
  url_unquote :: "string \<Rightarrow> string"
  json_loads :: "string \<Rightarrow> pyval option"
  platform_system :: string
  tempdir :: string
  path_join :: "string \<Rightarrow> string \<Rightarrow> string"
  abspath :: "string \<Rightarrow> string"
  run_process :: "string list \<Rightarrow> proc_result"
  write_fails :: "string \<Rightarrow> bool"
  remove_fails :: "string \<Rightarrow> bool"
  reportlab_available :: bool
  weasyprint_available :: bool
  pdf_build_fails :: "string \<Rightarrow> bool"
  startfile_fails :: "string \<Rightarrow> bool"

text \<open>
  The state: the generator's \<open>auth_token\<close>, the cookie jar of its session, the
  requests sent so far (the network calls), the files on disk and the number of
  clock readings.
\<close>

record state =
  auth_token :: pyval
  cookies :: jar
  sent :: "request list"
  files :: "string \<Rightarrow> file_content option"
  clock_reads :: nat

text \<open>\<open>EDRReportGenerator.__init__\<close>: no token, an empty jar.\<close>

definition initial_state :: state where
  "initial_state =
     \<lparr>auth_token = PNone, cookies = [], sent = [], files = (\<lambda>p. None), clock_reads = 0\<rparr>"

definition base_url :: string where
  "base_url = ''https://retaillink2.wal-mart.com/EventManagement''"

subsection \<open>Clock\<close>

definition now :: "env \<Rightarrow> state \<Rightarrow> datetime \<times> state" where
  "now e s = (clock e (clock_reads s), s\<lparr>clock_reads := Suc (clock_reads s)\<rparr>)"

definition pad2 :: "nat \<Rightarrow> string" where
  "pad2 n = (if n < 10 then CHR ''0'' # show_nat n else show_nat n)"

text \<open>\<open>strftime\<close> with the three formats the code uses.\<close>

definition strftime_date :: "datetime \<Rightarrow> string" where
  "strftime_date d = show_nat (dt_year d) @ ''-'' @ pad2 (dt_month d) @ ''-'' @ pad2 (dt_day d)"

definition strftime_time :: "datetime \<Rightarrow> string" where
  "strftime_time d = pad2 (dt_hour d) @ '':'' @ pad2 (dt_minute d) @ '':'' @ pad2 (dt_second d)"

definition strftime_stamp :: "datetime \<Rightarrow> string" where
  "strftime_stamp d =
     show_nat (dt_year d) @ pad2 (dt_month d) @ pad2 (dt_day d) @ ''_'' @
     pad2 (dt_hour d) @ pad2 (dt_minute d) @ pad2 (dt_second d)"

subsection \<open>The session\<close>

text \<open>
  One request of the session: it is recorded as sent, and the cookies of the answer go
  into the jar.  \<open>None\<close> stands for a failed connection.
\<close>

definition session_send :: "env \<Rightarrow> state \<Rightarrow> request \<Rightarrow> response option \<times> state" where
  "session_send e s r =
     (let s1 = s\<lparr>sent := sent s @ [r]\<rparr> in
      case server e (length (sent s)) r of
        ConnectionFailed \<Rightarrow> (None, s1)
      | Responded resp \<Rightarrow> (Some resp, s1\<lparr>cookies := fold jar_set (new_cookies resp) (cookies s1)\<rparr>))"

text \<open>\<open>raise_for_status\<close> raises for the statuses 400 to 599.\<close>

definition status_raises :: "response \<Rightarrow> bool" where
  "status_raises resp = (400 \<le> status_code resp \<and> status_code resp < 600)"

section \<open>The six steps of the login\<close>

text \<open>\<open>_get_initial_cookies\<close>.\<close>

definition initial_cookies :: "(string \<times> string) list" where
  "initial_cookies =
    [(''vtc'', ''Q0JqQVX0STHy6sao9qdhNw''),
     (''_pxvid'', ''3c803a96-548a-11f0-84bf-e045250e632c''),
     (''_ga'', ''GA1.2.103605184.1751648140''),
     (''QuantumMetricUserID'', ''23bc666aa80d92de6f4ffa5b79ff9fdc''),
     (''pxcts'', ''d0d1b4d9-65f2-11f0-a59e-62912b00fffc''),
     (''rl_access_attempt'', ''0''),
     (''rlLoginInfo'', ''''),
     (''bstc'', ''ZpNiPcM5OgU516Fy1nOhHw''),
     (''rl_show_login_form'', ''N''),
     (''TS0111a950'', ''0164c7ecbba28bf006381fcf7bc3c3fbc81a9b73705f5cedd649131a664e0cc5179472f6c66a7cee46d5fc6556faef1eb07fb3b8db''),
     (''TS01b1e5a6'', ''0164c7ecbba28bf006381fcf7bc3c3fbc81a9b73705f5cedd649131a664e0cc5179472f6c66a7cee46d5fc6556faef1eb07fb3b8db''),
     (''mp_c586ded18141faef3e556292ef2810bc_mixpanel'', ''%7B%22distinct_id%22%3A%20%22d2fr4w2%20%20%20%20%20%22%2C%22%24device_id%22%3A%20%221981deb804c5f0-08ebcf61e7361f-26011151-e12d0-1981deb804d22c4%22%2C%22%24initial_referrer%22%3A%20%22https%3A%2F%2Fretaillink.login.wal-mart.com%2F%22%2C%22%24initial_referring_domain%22%3A%20%22retaillink.login.wal-mart.com%22%2C%22%24user_id%22%3A%20%22d2fr4w2%20%20%20%20%20%22%7D''),
     (''TS04fe286f027'', ''08a6069d6cab2000cf0b847458906d222e70afa03939fa0de76da5c00884f260a79443300cc5407408d2c3bf9e113000b642cbc898d0534c0c86a20a3d11bab7101afcd84708efbc3e17c493bcf63e44a30e69658f98e8ce282590fbc1283275''),
     (''_px3'', ''85d2f0646ea75d99a2faac1898a7785dc1c8c7807e2612e865c5b74b4059d5fb:UHj6hAC9RHoxLnDq2rdjE+HkchqIMD2wKeYTOfHkRyo03uaqeN4xA4DX8dbN5RrJrX+uLLB/HTtX12k0ymeoSg==:1000:9TQQXsEtZxJ8rnnXulfuBg/dxB30NwnoogsLoiaQFk/xQECXPbbFYCno02+QFD40nnBos0iUVfyD2CpgeCV+cIFLDpCggGG0LVI2Q5S4hDYjVHb0fhh7UQ2cqGLr55bijg0Ix75CQdsdWi+gc34m88u66pDWGpB13rAKmim6yJo7/mxA32DYqKWBKbTwG/HvVDaGQCGDa+Iog+lfBNePx/WdAInb6LQ00IZGqYrdrE0='')]"

definition step1_submit_password :: "env \<Rightarrow> state \<Rightarrow> bool \<times> state" where
  "step1_submit_password e s =
     (let s0 = s\<lparr>cookies := fold jar_set_value initial_cookies (cookies s)\<rparr>;
          (r, s1) = session_send e s0
            \<lparr>req_method = POST, req_url = ''https://retaillink.login.wal-mart.com/api/login''\<rparr>
      in case r of
           None \<Rightarrow> (False, s1)
         | Some resp \<Rightarrow> (\<not> status_raises resp, s1))"

definition step2_request_mfa_code :: "env \<Rightarrow> state \<Rightarrow> bool \<times> state" where
  "step2_request_mfa_code e s =
     (let (r, s1) = session_send e s
            \<lparr>req_method = POST, req_url = ''https://retaillink.login.wal-mart.com/api/mfa/sendCode''\<rparr>
      in case r of
           None \<Rightarrow> (False, s1)
         | Some resp \<Rightarrow> (\<not> status_raises resp, s1))"

definition step3_validate_mfa_code :: "env \<Rightarrow> state \<Rightarrow> bool \<times> state" where
  "step3_validate_mfa_code e s =
     (let (r, s1) = session_send e s
            \<lparr>req_method = POST, req_url = ''https://retaillink.login.wal-mart.com/api/mfa/validateCode''\<rparr>
      in case r of
           None \<Rightarrow> (False, s1)
         | Some resp \<Rightarrow> (\<not> status_raises resp, s1))"

definition step4_register_page_access :: "env \<Rightarrow> state \<Rightarrow> bool \<times> state" where
  "step4_register_page_access e s =
     (let (r, s1) = session_send e s
            \<lparr>req_method = GET,
             req_url = ''https://retaillink2.wal-mart.com/rl_portal_services/api/Site/InsertRlPageDetails?pageId=6&pageSubId=w6040&pageSubDesc=Event+Management+System''\<rparr>
      in case r of
           None \<Rightarrow> (False, s1)
         | Some resp \<Rightarrow> (status_code resp = 200, s1))"

definition step5_navigate_to_event_management :: "env \<Rightarrow> state \<Rightarrow> bool \<times> state" where
  "step5_navigate_to_event_management e s =
     (let (r, s1) = session_send e s
            \<lparr>req_method = GET, req_url = ''https://retaillink2.wal-mart.com/rl_portal/''\<rparr>
      in case r of
           None \<Rightarrow> (False, s1)
         | Some resp \<Rightarrow>
             if status_code resp \<noteq> 200 then (False, s1)
             else
               let (r2, s2) = session_send e s1 \<lparr>req_method = GET, req_url = base_url @ ''/''\<rparr>
               in (case r2 of
                     None \<Rightarrow> (False, s2)
                   | Some resp2 \<Rightarrow> (status_code resp2 = 200, s2)))"

text \<open>
  \<open>self.auth_token[:50]\<close> in the message of step 6: a string or a list can be sliced,
  any other object raises.
\<close>

fun sliceable :: "pyval \<Rightarrow> bool" where
  "sliceable (PStr s) = True"
| "sliceable (PList xs) = True"
| "sliceable _ = False"

text \<open>
  The loop of step 6 over the jar.  It returns the outcome (\<open>Inr True\<close> for
  \<open>return True\<close>, \<open>Inr False\<close> when the loop ends, \<open>Inl\<close> for an exception that
  leaves the method) and the value of \<open>self.auth_token\<close> afterwards: the token is
  assigned before the message that slices it is built.
\<close>

fun scan_cookies :: "env \<Rightarrow> pyval \<Rightarrow> cookie list \<Rightarrow> (exn + bool) \<times> pyval" where
  "scan_cookies e tok [] = (Inr False, tok)"
| "scan_cookies e tok (c # cs) =
     (if cookie_name c = ''auth-token'' \<and> cookie_value c \<noteq> [] then
        (case json_loads e (url_unquote e (cookie_value c)) of
           None \<Rightarrow> scan_cookies e tok cs
         | Some token_data \<Rightarrow>
             (case py_get token_data ''token'' PNone of
                Inl ex \<Rightarrow> (Inl ex, tok)
              | Inr t \<Rightarrow> if sliceable t then (Inr True, t) else (Inl TypeError, t)))
      else scan_cookies e tok cs)"

definition authenticate_request :: request where
  "authenticate_request = \<lparr>req_method = GET, req_url = base_url @ ''/api/authenticate''\<rparr>"

definition step6_authenticate_event_management :: "env \<Rightarrow> state \<Rightarrow> (exn + bool) \<times> state" where
  "step6_authenticate_event_management e s =
     (let (r, s1) = session_send e s authenticate_request
      in case r of
           None \<Rightarrow> (Inr False, s1)
         | Some resp \<Rightarrow>
             if status_code resp = 200 then
               (case json_body resp of
                  None \<Rightarrow> (Inr True, s1)
                | Some auth_data \<Rightarrow>
                    let (res, tok) = scan_cookies e (auth_token s1) (jar_cookies (cookies s1))
                    in (res, s1\<lparr>auth_token := tok\<rparr>))
             else (Inr False, s1))"

definition authenticate :: "env \<Rightarrow> state \<Rightarrow> (exn + bool) \<times> state" where
  "authenticate e s =
     (let (ok1, s1) = step1_submit_password e s in
      if \<not> ok1 then (Inr False, s1)
      else
        let (ok2, s2) = step2_request_mfa_code e s1 in
        if \<not> ok2 then (Inr False, s2)
        else
          let (ok3, s3) = step3_validate_mfa_code e s2 in
          if \<not> ok3 then (Inr False, s3)
          else
            let (ok4, s4) = step4_register_page_access e s3;
                (ok5, s5) = step5_navigate_to_event_management e s4;
                (r6, s6) = step6_authenticate_event_management e s5
            in case r6 of
                 Inl ex \<Rightarrow> (Inl ex, s6)
               | Inr ok6 \<Rightarrow> (Inr ok6, s6))"

section \<open>Fetching a report\<close>

text \<open>
  \<open>get_edr_report\<close>.  A failed connection, an error status and a body that is not
  JSON are all \<open>RequestException\<close>s (the last one since requests 2.27), which the
  method turns into the empty dictionary.
\<close>

definition must_authenticate :: exn where
  "must_authenticate = ValueError ''Must authenticate first before getting EDR report''"

definition edr_report_request :: "string \<Rightarrow> request" where
  "edr_report_request event_id =
     \<lparr>req_method = GET, req_url = base_url @ ''/api/edrReport?id='' @ event_id\<rparr>"

definition get_edr_report :: "env \<Rightarrow> state \<Rightarrow> string \<Rightarrow> (exn + pyval) \<times> state" where
  "get_edr_report e s event_id =
     (if \<not> truthy (auth_token s) then (Inl must_authenticate, s)
      else
        let (r, s1) = session_send e s (edr_report_request event_id)
        in case r of
             None \<Rightarrow> (Inr (PDict []), s1)
           | Some resp \<Rightarrow>
               if status_raises resp then (Inr (PDict []), s1)
               else (case json_body resp of
                       None \<Rightarrow> (Inr (PDict []), s1)
                     | Some report_data \<Rightarrow> (Inr report_data, s1)))"

section \<open>The markup renderer\<close>

text \<open>
  \<open>generate_html_report\<close> builds the document from two f-string templates: one row
  of the items table per item, and the document around the rows.
\<close>

text \<open>The literal text of the row template, between its five fields.\<close>

definition row_text_0 :: string where
  "row_text_0 =
     ''
                <tr class=\"edr-wrapper\">
                    <td class=\"report-table-content\">''"

definition row_text_1 :: string where
  "row_text_1 =
     ''</td>
                    <td class=\"report-table-content\">''"

definition row_text_2 :: string where
  "row_text_2 =
     ''</td>
                    <td class=\"report-table-content\">''"

definition row_text_3 :: string where
  "row_text_3 =
     ''</td>
                    <td class=\"report-table-content\">''"

definition row_text_4 :: string where
  "row_text_4 =
     ''</td>
                    <td class=\"report-table-content\">''"

definition row_text_5 :: string where
  "row_text_5 =
     ''</td>
                </tr>
            ''"

text \<open>
  The literal text of the document template, between its fields.  The button's
  pictograph is written as the bytes of its UTF-8 encoding.
\<close>

definition doc_text_0 :: string where
  "doc_text_0 =
     ''
<!DOCTYPE html>
<html>
<head>
    <title>Event Management System - EDR Report</title>
    <style>
        /* CSS from the provided files combined with print optimization */
        body { 
            font-family: Arial, sans-serif; 
            padding: 20px; 
            margin: 0;
        }
        
        .detail-header { 
            display: flex; 
            justify-content: center; 
            align-items: center; 
            font-weight: 700;
            font-size: 24px;
            margin-bottom: 20px;
        }
        
        .elememnt-padding { 
            padding: 10px 0; 
        }
        
        .font-weight-bold { 
            font-size: 18px; 
            margin-top: 10px; 
            margin-bottom: 10px; 
            font-weight: bold;
        }
        
        .space-underlined { 
            display: inline-block; 
            width: calc(80% - 230px); 
            border-bottom: 1px solid black;
            margin-left: 10px;
        }
        
        .instruction-heading { 
            margin-top: 10px; 
            margin-bottom: 10px; 
            font-size: 18px; 
            font-weight: 500; 
        }
        
        .report-footer div { 
            padding: 2px 0; 
        }
        
        .report-first { 
            margin-left: 20%; 
        }
        
        .help-text { 
            font-size: 14px; 
            line-height: 1.2; 
        }
        
        .demo-text { 
            margin-left: 12px; 
            font-weight: 700; 
        }
        
        .col-40 { 
            flex: 0 0 40%; 
            max-width: 40%; 
        }
        
        .report-table-content { 
            text-align: center; 
        }
        
        .row { 
            display: flex; 
            padding: 5px; 
            width: 100%; 
        }
        
        .col { 
            flex: 1; 
            display: block; 
            padding: 5px; 
            width: 100%; 
        }
        
        .col-25 { 
            flex: 0 0 25%; 
            max-width: 25%; 
        }
        
        .input-label { 
            font-weight: normal; 
        }
        
        td { 
            padding: 8px; 
            border-top: solid 1px #ccc; 
            font-family: arial; 
            font-size: 12px; 
            text-align: left; 
            font-weight: 400; 
            color: grey; 
            line-height: 18px; 
        }
        
        table { 
            width: 100%; 
            border-collapse: collapse; 
            text-align: center; 
            font-size: 94%; 
            outline: #ccc solid 1px; 
            table-layout: fixed; 
            margin-bottom: 10px; 
        }
        
        th { 
            padding: 5px; 
            background: #e2e1e1; 
            font-size: 14px; 
            font-weight: 400; 
            color: grey; 
        }
        
        .demo-table-header { 
            background: #e2e1e1; 
        }
        
        hr { 
            border: 1px solid #ccc; 
            margin: 10px 0; 
        }
        
        @media print {
            body { 
                padding: 10px; 
            }
            .print-button { 
                display: none; 
            }
        }
    </style>
</head>
<body>
    <div id=\"reportDdr_pdf\">
        <div class=\"detail-header\">EVENT DETAIL REPORT</div>
        
        <div class=\"elememnt-padding font-weight-bold\">
            <span>RUN ON </span>
            <span>''"

definition doc_text_1 :: string where
  "doc_text_1 =
     ''</span>
            <span> AT </span>
            <span>''"

definition doc_text_2 :: string where
  "doc_text_2 =
     ''</span>
        </div>
        
        <hr>
        
        <div class=\"elememnt-padding help-text\">
            <div>
                <span class=\"report-first\">IMPORTANT!!!</span> 
                This report should be printed each morning prior to completing each event.<br>
                1. The Event Details Report should be kept in the event prep area for each demonstrator to review instructions and item status.<br>
                2. The Event Co-ordinator should use this sheet when visiting the event area. Comments should be written to enter into the system at a later time.<br>
                3. Remember to scan items for product charge using the Club Use function on the handheld device.<br>
                Retention: This report should be kept in a monthly folder with the most recent being put in the front. The previous 6 months need to be kept accessible in the event prep area. Reports older than 6 months should be boxed and stored. Discard any report over 18 months old.
            </div>
        </div>
        
        <hr>
        
        <div id=\"demo_div\">
            <div class=\"row responsive-md\">
                <div class=\"col col-25\">
                    <span class=\"input-label\" title=\"Event Number\">
                        Event Number <span class=\"demo-text\">''"

definition doc_text_3 :: string where
  "doc_text_3 =
     ''</span>
                    </span>
                </div>
                <div class=\"col col-25\">
                    <span class=\"input-label\" title=\"Event Type\">
                        Event Type <span class=\"demo-text\">''"

definition doc_text_4 :: string where
  "doc_text_4 =
     ''</span>
                    </span>
                </div>
                <div class=\"col col-40\">
                    <span class=\"input-label\" title=\"Event Locked\">
                        Event Locked <span class=\"demo-text\">''"

definition doc_text_5 :: string where
  "doc_text_5 =
     ''</span>
                    </span>
                </div>
            </div>
            
            <div class=\"row responsive-md\">
                <div class=\"col col-25\">
                    <span class=\"input-label\" title=\"Event Status\">
                        Event Status <span class=\"demo-text\">''"

definition doc_text_6 :: string where
  "doc_text_6 =
     ''</span>
                    </span>
                </div>
                <div class=\"col col-25\">
                    <span class=\"input-label\" title=\"Event Date\">
                        Event Date <span class=\"demo-text\">''"

definition doc_text_7 :: string where
  "doc_text_7 =
     ''</span>
                    </span>
                </div>
                <div class=\"col col-40\">
                    <span class=\"input-label\" title=\"Event Name\">
                        Event Name <span class=\"demo-text\" title=\"''"

definition doc_text_8 :: string where
  "doc_text_8 =
     ''\">''"

definition doc_text_9 :: string where
  "doc_text_9 =
     ''</span>
                    </span>
                </div>
            </div>
        </div>
        
        <div id=\"demo_pdf\">
            <table id=\"new_event\">
                <thead>
                    <tr class=\"demo-table-header\">
                        <th>Item Number</th>
                        <th>Primary Item Number</th>
                        <th>Description</th>
                        <th>Vendor</th>
                        <th>Category</th>
                    </tr>
                </thead>
                <tbody>
                    ''"

definition doc_text_10 :: string where
  "doc_text_10 =
     ''
                </tbody>
            </table>
        </div>
        
        <h4 class=\"instruction-heading\">Instructions:</h4>
        
        <div>
            <span class=\"input-label\" title=\"Event Preparation\">
                Event Preparation: <span class=\"demo-text\">''"

definition doc_text_11 :: string where
  "doc_text_11 =
     ''</span>
            </span>
            <div>
                <span class=\"input-label\" title=\"Event Portion\">
                    Event Portion: <span class=\"demo-text\">''"

definition doc_text_12 :: string where
  "doc_text_12 =
     ''</span>
                </span>
            </div>
        </div>
        
        <div class=\"report-footer\">
            <div>
                <span>Club Associate Printed Name:</span>
                <span class=\"space-underlined\"></span>
            </div>
            <div>
                <span>Club Associate Signature:</span>
                <span class=\"space-underlined\"></span>
            </div>
            <div>
                <span>Club Associate Title:</span>
                <span class=\"space-underlined\"></span>
            </div>
            <div>
                <span>Date:</span>
                <span class=\"space-underlined\"></span>
            </div>
            <div>
                <span>Tastes & Tips Rep Signature:</span>
                <span class=\"space-underlined\"></span>
            </div>
        </div>
        
        <div class=\"print-button\" style=\"margin-top: 20px; text-align: right;\">
            <button onclick=\"window.print()\" style=\"padding: 10px 20px; background: #1976d2; color: white; border: none; border-radius: 4px; cursor: pointer;\">
                '' @
     [CHR 0xF0, CHR 0x9F, CHR 0x96, CHR 0xA8, CHR 0xEF, CHR 0xB8, CHR 0x8F] @
     '' Print Report
            </button>
        </div>
    </div>
</body>
</html>
        ''"
text \<open>The text of a document or of a part of one.\<close>

type_synonym markup = string

text \<open>The row template applied to the text of the five fields.\<close>

definition item_row :: "string \<Rightarrow> string \<Rightarrow> string \<Rightarrow> string \<Rightarrow> string \<Rightarrow> markup" where
  "item_row item_nbr gtin item_desc vendor_nbr dept_nbr =
     row_text_0 @ item_nbr @ row_text_1 @ gtin @ row_text_2 @ item_desc @
     row_text_3 @ vendor_nbr @ row_text_4 @ dept_nbr @ row_text_5"

text \<open>The document template applied to the text of its fields.\<close>

definition html_template ::
  "string \<Rightarrow> string \<Rightarrow> string \<Rightarrow> string \<Rightarrow> string \<Rightarrow> string \<Rightarrow> string \<Rightarrow> string \<Rightarrow>
   markup \<Rightarrow> string \<Rightarrow> string \<Rightarrow> markup" where
  "html_template report_date report_time event_number event_type event_locked
       event_status event_date event_name item_rows event_prep event_portion =
     doc_text_0 @ report_date @ doc_text_1 @ report_time @ doc_text_2 @ event_number @
     doc_text_3 @ event_type @ doc_text_4 @ event_locked @ doc_text_5 @ event_status @
     doc_text_6 @ event_date @ doc_text_7 @ event_name @ doc_text_8 @ event_name @
     doc_text_9 @ item_rows @ doc_text_10 @ event_prep @ doc_text_11 @ event_portion @
     doc_text_12"

text \<open>\<open>x.get(key, 'N/A') if x else 'N/A'\<close>.\<close>

definition get_or_na :: "pyval \<Rightarrow> string \<Rightarrow> exn + pyval" where
  "get_or_na x k = (if truthy x then py_get x k (PStr ''N/A'') else Inr (PStr ''N/A''))"

text \<open>\<open>x.get(key, default) if x else default\<close>.\<close>

definition get_or_default :: "pyval \<Rightarrow> string \<Rightarrow> pyval \<Rightarrow> exn + pyval" where
  "get_or_default x k dflt = (if truthy x then py_get x k dflt else Inr dflt)"

text \<open>One row: the five \<open>item.get(key, '')\<close> of the row template, in their order.\<close>

definition render_item_row :: "pyval \<Rightarrow> exn + string" where
  "render_item_row item =
     ebind (py_get item ''itemNbr'' (PStr '''')) (\<lambda>item_nbr.
     ebind (py_get item ''gtin'' (PStr '''')) (\<lambda>gtin.
     ebind (py_get item ''itemDesc'' (PStr '''')) (\<lambda>item_desc.
     ebind (py_get item ''vendorNbr'' (PStr '''')) (\<lambda>vendor_nbr.
     ebind (py_get item ''deptNbr'' (PStr '''')) (\<lambda>dept_nbr.
     Inr (item_row (py_str item_nbr) (py_str gtin) (py_str item_desc)
            (py_str vendor_nbr) (py_str dept_nbr)))))))"

text \<open>The loop \<open>for item in item_details: item_rows += ...\<close>.\<close>

fun item_rows_loop :: "string \<Rightarrow> pyval list \<Rightarrow> exn + string" where
  "item_rows_loop item_rows [] = Inr item_rows"
| "item_rows_loop item_rows (item # rest) =
     ebind (render_item_row item) (\<lambda>row. item_rows_loop (item_rows @ row) rest)"

text \<open>
  The renderer at a given reading of the clock.  The statements are in the order of
  the source, so the first one that raises decides the exception.
\<close>

definition html_report_at :: "datetime \<Rightarrow> pyval \<Rightarrow> exn + string" where
  "html_report_at t edr_data =
     (let report_date = strftime_date t;
          report_time = strftime_time t
      in
      ebind (get_or_na edr_data ''demoId'') (\<lambda>event_number.
      ebind (get_or_na edr_data ''demoClassCode'') (\<lambda>event_type.
      ebind (get_or_na edr_data ''demoStatusCode'') (\<lambda>event_status.
      ebind (get_or_na edr_data ''demoDate'') (\<lambda>event_date.
      ebind (get_or_na edr_data ''demoName'') (\<lambda>event_name.
      ebind (get_or_na edr_data ''demoLockInd'') (\<lambda>event_locked.
      ebind (get_or_default edr_data ''demoInstructions'' (PDict [])) (\<lambda>instructions.
      ebind (get_or_na instructions ''demoPrepnTxt'') (\<lambda>event_prep.
      ebind (get_or_na instructions ''demoPortnTxt'') (\<lambda>event_portion.
      ebind (get_or_default edr_data ''itemDetails'' (PList [])) (\<lambda>item_details.
      ebind (py_iter item_details) (\<lambda>items.
      ebind (item_rows_loop [] items) (\<lambda>item_rows.
      Inr (py_strip
        (html_template report_date report_time (py_str event_number) (py_str event_type)
           (py_str event_locked) (py_str event_status) (py_str event_date)
           (py_str event_name) item_rows (py_str event_prep) (py_str event_portion)))
      )))))))))))))"

text \<open>\<open>generate_html_report\<close>: one reading of the clock, then the document.\<close>

definition generate_html_report :: "env \<Rightarrow> state \<Rightarrow> pyval \<Rightarrow> (exn + string) \<times> state" where
  "generate_html_report e s edr_data =
     (let (t, s1) = now e s in (html_report_at t edr_data, s1))"

section \<open>Saving and printing a report\<close>


text \<open>\<open>os.remove\<close>: it raises when the file is not there or cannot be deleted.\<close>

definition os_remove :: "env \<Rightarrow> state \<Rightarrow> string \<Rightarrow> (exn + unit) \<times> state" where
  "os_remove e s path =
     (if remove_fails e path \<or> files s path = None then (Inl OSError, s)
      else (Inr (), s\<lparr>files := (files s)(path := None)\<rparr>))"

subsection \<open>The print mechanisms\<close>

text \<open>
  Each mechanism runs commands of the operating system and catches every exception
  itself: a command that cannot be started or that runs out of time makes the
  mechanism answer \<open>False\<close>.
\<close>

definition print_on_windows_simple :: "env \<Rightarrow> string \<Rightarrow> bool" where
  "print_on_windows_simple e file_path =
     (let abs_path = abspath e file_path in
      case run_process e [''cmd'', ''/c'', ''start'', ''/wait'', ''/min'', '''', ''/print'', abs_path] of
        Exited rc \<Rightarrow> rc = 0
      | TimedOut \<Rightarrow> False
      | LaunchFailed \<Rightarrow> False)"

definition print_on_windows_advanced :: "env \<Rightarrow> string \<Rightarrow> bool" where
  "print_on_windows_advanced e file_path =
     (let abs_path = abspath e file_path;
          ps_cmd = ''Start-Process -FilePath \"'' @ abs_path @ ''\" -Verb Print -WindowStyle Hidden -Wait''
      in case run_process e [''powershell.exe'', ''-WindowStyle'', ''Hidden'', ''-Command'', ps_cmd] of
           Exited rc \<Rightarrow> rc = 0
         | TimedOut \<Rightarrow> False
         | LaunchFailed \<Rightarrow> False)"

definition print_on_windows_fallback :: "env \<Rightarrow> string \<Rightarrow> bool" where
  "print_on_windows_fallback e file_path =
     (let abs_path = abspath e file_path in
      case run_process e [''print'', abs_path] of
        Exited rc \<Rightarrow> rc = 0
      | TimedOut \<Rightarrow> False
      | LaunchFailed \<Rightarrow> False)"

definition applescript :: string where
  "applescript =
     ''
                tell application \"Safari\"
                    delay 2
                    tell application \"System Events\"
                        keystroke \"p\" using command down
                        delay 1
                        keystroke return
                    end tell
                end tell
                ''"

definition print_on_macos :: "env \<Rightarrow> string \<Rightarrow> bool" where
  "print_on_macos e file_path =
     (case run_process e [''lp'', ''-d'', ''default'', file_path] of
        Exited rc \<Rightarrow>
          if rc = 0 then True
          else (case run_process e [''open'', ''-a'', ''Safari'', file_path] of
                  Exited rc2 \<Rightarrow>
                    if rc2 = 0 then
                      (case run_process e [''osascript'', ''-e'', applescript] of
                         Exited rc3 \<Rightarrow> True
                       | TimedOut \<Rightarrow> False
                       | LaunchFailed \<Rightarrow> False)
                    else False
                | TimedOut \<Rightarrow> False
                | LaunchFailed \<Rightarrow> False)
      | TimedOut \<Rightarrow> False
      | LaunchFailed \<Rightarrow> False)"

definition print_on_linux :: "env \<Rightarrow> string \<Rightarrow> bool" where
  "print_on_linux e file_path =
     (case run_process e [''lp'', file_path] of
        Exited rc \<Rightarrow>
          if rc = 0 then True
          else (case run_process e [''lpr'', file_path] of
                  Exited rc2 \<Rightarrow>
                    if rc2 = 0 then True
                    else (case run_process e [''xdg-open'', file_path] of
                            Exited rc3 \<Rightarrow> rc3 = 0
                          | TimedOut \<Rightarrow> False
                          | LaunchFailed \<Rightarrow> False)
                | TimedOut \<Rightarrow> False
                | LaunchFailed \<Rightarrow> False)
      | TimedOut \<Rightarrow> False
      | LaunchFailed \<Rightarrow> False)"

text \<open>
  The end of \<open>print_html_report\<close>, once the mechanisms of the platform have
  answered: both branches delete the temporary file and ignore an \<open>OSError\<close> of
  the deletion.
\<close>

definition finish_print :: "env \<Rightarrow> state \<Rightarrow> string \<Rightarrow> bool \<Rightarrow> bool \<times> state" where
  "finish_print e s temp_path result =
     (if result then (let (r, s1) = os_remove e s temp_path in (True, s1))
      else (let (r, s1) = os_remove e s temp_path in (False, s1)))"

text \<open>
  \<open>print_html_report\<close>.  The whole body stands in \<open>try ... except Exception\<close>, so a
  failure to write the temporary file answers \<open>False\<close>.  On a platform that is
  neither Windows, macOS nor Linux the method returns right after writing the file.
\<close>

definition print_html_report ::
  "env \<Rightarrow> state \<Rightarrow> string \<Rightarrow> string option \<Rightarrow> bool \<times> state" where
  "print_html_report e s html_content temp_filename =
     (let (fname, s1) =
            (case temp_filename of
               Some f \<Rightarrow>
                 if f \<noteq> [] then (f, s)
                 else (let (t, s') = now e s in (''temp_edr_report_'' @ strftime_stamp t @ ''.html'', s'))
             | None \<Rightarrow>
                 (let (t, s') = now e s in (''temp_edr_report_'' @ strftime_stamp t @ ''.html'', s')));
          temp_path = path_join e (tempdir e) fname
      in if write_fails e temp_path then (False, s1)
         else
           let s2 = s1\<lparr>files := (files s1)(temp_path \<mapsto> Markup html_content)\<rparr>;
               system = lower (platform_system e)
           in if system = ''windows'' then
                finish_print e s2 temp_path
                  (print_on_windows_simple e temp_path \<or>
                   print_on_windows_advanced e temp_path \<or>
                   print_on_windows_fallback e temp_path)
              else if system = ''darwin'' then
                finish_print e s2 temp_path (print_on_macos e temp_path)
              else if system = ''linux'' then
                finish_print e s2 temp_path (print_on_linux e temp_path)
              else (False, s2))"


section \<open>The automated printer\<close>


text \<open>
  One entry of the result record.  \<open>error\<close> is \<open>None\<close>, a fixed message, or the
  text of the exception that was caught.
\<close>

record result_entry =
  success :: bool
  generated :: bool
  printed :: bool
  saved :: bool
  saved_file :: "string option"
  error :: "(string + exn) option"


definition set_authentication_manually :: "state \<Rightarrow> pyval \<Rightarrow> state" where
  "set_authentication_manually s tok = s\<lparr>auth_token := tok\<rparr>"












definition exit_status :: "exn + bool \<Rightarrow> nat" where
  "exit_status r = (case r of Inr ok \<Rightarrow> (if ok then 0 else 1) | Inl ex \<Rightarrow> 1)"


section \<open>The enhanced printer\<close>

subsection \<open>The paginated document\<close>








subsection \<open>The document made from the markup of the reports\<close>








subsection \<open>Printing and opening the document\<close>



subsection \<open>The batch\<close>






section \<open>A sample event and a sample portal\<close>

text \<open>The event record of the test suite (\<open>sample_event_data\<close>).\<close>

definition sample_event_data :: pyval where
  "sample_event_data = PDict
     [(''demoId'', PStr ''606034''),
      (''demoName'', PStr ''Test Food Demo Event''),
      (''demoClassCode'', PStr ''45''),
      (''demoStatusCode'', PStr ''2''),
      (''demoDate'', PStr ''2025-07-22''),
      (''demoLockInd'', PStr ''N''),
      (''demoInstructions'', PDict
         [(''demoPrepnTxt'', PStr ''Test preparation instructions''),
          (''demoPortnTxt'', PStr ''Test portion instructions'')]),
      (''itemDetails'', PList
         [PDict [(''itemNbr'', PStr ''12345''),
                 (''gtin'', PStr ''67890''),
                 (''itemDesc'', PStr ''Test Product''),
                 (''vendorNbr'', PStr ''123''),
                 (''deptNbr'', PStr ''456'')]])]"

definition sample_time :: datetime where
  "sample_time =
     \<lparr>dt_year = 2025, dt_month = 7, dt_day = 22, dt_hour = 8, dt_minute = 5, dt_second = 9\<rparr>"

text \<open>
  A portal that accepts the login, hands out a token in the \<open>auth-token\<close> cookie,
  knows the event 606034 and answers 404 for every other event.
\<close>

definition ok_response :: response where
  "ok_response =
     \<lparr>status_code = 200, json_body = Some (PDict [(''success'', PBool True)]), new_cookies = []\<rparr>"

definition token_cookie :: cookie where
  "token_cookie =
     \<lparr>cookie_domain = ''retaillink2.wal-mart.com'', cookie_path = ''/'',
      cookie_name = ''auth-token'', cookie_value = ''{\"token\": \"abc123\"}''\<rparr>"

definition sample_server :: "nat \<Rightarrow> request \<Rightarrow> http_result" where
  "sample_server n r =
     (if req_url r = base_url @ ''/api/authenticate'' then
        Responded (ok_response\<lparr>new_cookies := [token_cookie]\<rparr>)
      else if req_url r = base_url @ ''/api/edrReport?id=606034'' then
        Responded (ok_response\<lparr>json_body := Some sample_event_data\<rparr>)
      else if prefix (base_url @ ''/api/edrReport?id='') (req_url r) then
        Responded \<lparr>status_code = 404, json_body = None, new_cookies = []\<rparr>
      else Responded ok_response)"

text \<open>
  A Linux host without a printer: every command exits with status 1.  The file
  system accepts every write and every deletion; the page-layout library is there.
\<close>

definition sample_env :: env where
  "sample_env =
     \<lparr>server = sample_server,
      clock = (\<lambda>n. sample_time),
      url_unquote = (\<lambda>t. t),
      json_loads = (\<lambda>t. if t = ''{\"token\": \"abc123\"}''
                         then Some (PDict [(''token'', PStr ''abc123'')]) else None),
      platform_system = ''Linux'',
      tempdir = ''/tmp'',
      path_join = (\<lambda>a b. a @ ''/'' @ b),
      abspath = (\<lambda>p. p),
      run_process = (\<lambda>argv. Exited 1),
      write_fails = (\<lambda>p. False),
      remove_fails = (\<lambda>p. False),
      reportlab_available = True,
      weasyprint_available = False,
      pdf_build_fails = (\<lambda>p. False),
      startfile_fails = (\<lambda>p. False)\<rparr>"

text \<open>A state in which the token was supplied directly.\<close>

definition token_state :: state where
  "token_state = set_authentication_manually initial_state (PStr ''abc123'')"

section \<open>Notions used to state the properties of a batch\<close>

text \<open>
  What \<open>get_edr_report\<close> answers when the request for \<open>event_id\<close> is the \<open>n\<close>-th
  request of the session (counted from 0): the payload, or the empty dictionary when
  the retrieval fails.
\<close>

definition fetch_answer :: "env \<Rightarrow> nat \<Rightarrow> string \<Rightarrow> pyval" where
  "fetch_answer e n event_id =
     (case server e n (edr_report_request event_id) of
        ConnectionFailed \<Rightarrow> PDict []
      | Responded resp \<Rightarrow>
          if status_raises resp then PDict []
          else (case json_body resp of None \<Rightarrow> PDict [] | Some d \<Rightarrow> d))"

text \<open>The fetch fails: the caller gets nothing it can use.\<close>

definition fetch_fails :: "env \<Rightarrow> nat \<Rightarrow> string \<Rightarrow> bool" where
  "fetch_fails e n event_id = (\<not> truthy (fetch_answer e n event_id))"

text \<open>
  The number of identifiers of a list whose fetch fails, when the first identifier is
  asked for with the \<open>n\<close>-th request and every identifier costs one request.
\<close>

fun count_fetch_failures :: "env \<Rightarrow> nat \<Rightarrow> string list \<Rightarrow> nat" where
  "count_fetch_failures e n [] = 0"
| "count_fetch_failures e n (event_id # rest) =
     (if fetch_fails e n event_id then 1 else 0) + count_fetch_failures e (Suc n) rest"




section \<open>Auxiliary facts\<close>

declare show_nat.simps [simp del]

lemma show_nat_numeral [simp]:
  "show_nat (numeral k) =
     (if (numeral k :: nat) < 10 then [''0123456789'' ! numeral k]
      else show_nat (numeral k div 10) @ [''0123456789'' ! (numeral k mod 10)])"
  by (simp add: show_nat.simps)

lemma show_nat_small [simp]: "show_nat 0 = ''0''" "show_nat (Suc 0) = ''1''"
  by (simp_all add: show_nat.simps)

lemma sample_date: "strftime_date sample_time = ''2025-07-22''"
  by (simp add: strftime_date_def sample_time_def pad2_def)

lemma sample_clock: "strftime_time sample_time = ''08:05:09''"
  by (simp add: strftime_time_def sample_time_def pad2_def)

lemma sample_stamp: "strftime_stamp sample_time = ''20250722_080509''"
  by (simp add: strftime_stamp_def sample_time_def pad2_def)

subsection \<open>The session\<close>








subsection \<open>Step 6\<close>






subsection \<open>The sample portal\<close>












section \<open>Authentication and the credential\<close>




section \<open>Fetching without a credential\<close>

text \<open>
  Claim C6.  For every event identifier, \<open>get_edr_report\<close> without a credential
  (\<open>auth_token\<close> is \<open>None\<close> or empty) raises the error that asks to authenticate first,
  and leaves the state as it was: in particular no request is sent.  The error is
  raised, where a failed retrieval would answer the empty dictionary.
\<close>

theorem fetch_requires_credential:
  "\<not> truthy (auth_token s) \<Longrightarrow>
     fst (get_edr_report e s event_id) =
       Inl (ValueError ''Must authenticate first before getting EDR report'') \<and>
     sent (snd (get_edr_report e s event_id)) = sent s \<and>
     snd (get_edr_report e s event_id) = s"
  by (simp add: get_edr_report_def must_authenticate_def)

theorem fetch_requires_credential_witness:
  "\<not> truthy (auth_token initial_state) \<and>
   fst (get_edr_report sample_env initial_state ''606034'') =
     Inl (ValueError ''Must authenticate first before getting EDR report'') \<and>
   sent (snd (get_edr_report sample_env initial_state ''606034'')) = []"
proof -
  have h: "\<not> truthy (auth_token initial_state)" by (simp add: initial_state_def)
  from fetch_requires_credential[OF h, of sample_env "''606034''"] h
  show ?thesis by (simp add: initial_state_def)
qed

section \<open>Describing a code\<close>














section \<open>The markup renderer\<close>

subsection \<open>Stripping the document\<close>

lemma lstrip_lead:
  "list_all is_space ws \<Longrightarrow> \<not> is_space c \<Longrightarrow> dropWhile is_space (ws @ c # xs) = c # xs"
  by (induction ws) auto

lemma py_strip_core:
  assumes "list_all is_space ws1" "list_all is_space ws2" "\<not> is_space c" "\<not> is_space d"
  shows "py_strip (ws1 @ c # mid @ d # ws2) = c # mid @ [d]"
proof -
  have "dropWhile is_space (ws1 @ c # mid @ d # ws2) = c # mid @ d # ws2"
    using assms by (simp add: lstrip_lead)
  moreover have "rev (c # mid @ d # ws2) = rev ws2 @ d # rev (c # mid)" by simp
  moreover have "dropWhile is_space (rev ws2 @ d # rev (c # mid)) = d # rev (c # mid)"
    using assms by (intro lstrip_lead) (simp_all add: list_all_iff)
  ultimately show ?thesis by (simp add: py_strip_def)
qed

lemma doc_text_0_head: "doc_text_0 = [CHR 0x0A] @ CHR ''<'' # drop 2 doc_text_0"
  by (simp add: doc_text_0_def)

lemma doc_text_12_tail: "drop 1191 doc_text_12 = CHR ''>'' # [CHR 0x0A] @ ''        ''"
  by (simp add: doc_text_12_def)

lemma doc_text_12_split:
  "doc_text_12 = take 1191 doc_text_12 @ CHR ''>'' # [CHR 0x0A] @ ''        ''"
  using append_take_drop_id[of 1191 doc_text_12] doc_text_12_tail by simp

lemma doc_text_12_take: "take 1192 doc_text_12 = take 1191 doc_text_12 @ ''>''"
  by (subst (1) doc_text_12_split) (simp add: doc_text_12_def)

lemma strip_wrapped:
  "py_strip (doc_text_0 @ mid @ doc_text_12) = tl doc_text_0 @ mid @ take 1192 doc_text_12"
proof -
  have "py_strip ([CHR 0x0A] @ CHR ''<'' # (drop 2 doc_text_0 @ mid @ take 1191 doc_text_12) @
            CHR ''>'' # [CHR 0x0A] @ ''        '')
      = CHR ''<'' # (drop 2 doc_text_0 @ mid @ take 1191 doc_text_12) @ [CHR ''>'']"
    by (rule py_strip_core) (simp_all add: is_space_def)
  moreover have "tl doc_text_0 = CHR ''<'' # drop 2 doc_text_0"
    by (subst (1) doc_text_0_head) simp
  moreover have "doc_text_0 @ mid @ doc_text_12 =
      [CHR 0x0A] @ CHR ''<'' # (drop 2 doc_text_0 @ mid @ take 1191 doc_text_12) @
        CHR ''>'' # [CHR 0x0A] @ ''        ''"
    by (subst (1) doc_text_0_head, subst (1) doc_text_12_split) simp
  ultimately show ?thesis using doc_text_12_take by simp
qed

text \<open>
  \<open>strip\<close> takes the line break in front of the document and the white space behind
  it, and nothing of what the fields hold.
\<close>

lemma strip_html_template:
  "py_strip (html_template report_date report_time event_number event_type event_locked
       event_status event_date event_name item_rows event_prep event_portion) =
     tl doc_text_0 @ report_date @ doc_text_1 @ report_time @ doc_text_2 @ event_number @
     doc_text_3 @ event_type @ doc_text_4 @ event_locked @ doc_text_5 @ event_status @
     doc_text_6 @ event_date @ doc_text_7 @ event_name @ doc_text_8 @ event_name @
     doc_text_9 @ item_rows @ doc_text_10 @ event_prep @ doc_text_11 @ event_portion @
     take 1192 doc_text_12"
  using strip_wrapped[of "report_date @ doc_text_1 @ report_time @ doc_text_2 @ event_number @
     doc_text_3 @ event_type @ doc_text_4 @ event_locked @ doc_text_5 @ event_status @
     doc_text_6 @ event_date @ doc_text_7 @ event_name @ doc_text_8 @ event_name @
     doc_text_9 @ item_rows @ doc_text_10 @ event_prep @ doc_text_11 @ event_portion"]
  by (simp add: html_template_def)

subsection \<open>The rows of the items table\<close>








subsection \<open>The time stamp\<close>

lemma html_report_sample:
  "html_report_at sample_time sample_event_data =
     Inr (py_strip (html_template ''2025-07-22'' ''08:05:09'' ''606034'' ''45'' ''N'' ''2''
        ''2025-07-22'' ''Test Food Demo Event''
        (item_row ''12345'' ''67890'' ''Test Product'' ''123'' ''456'')
        ''Test preparation instructions'' ''Test portion instructions''))"
  by (simp add: html_report_at_def sample_event_data_def get_or_na_def get_or_default_def
      ebind_def dict_get_def render_item_row_def sample_date sample_clock)

lemma doc_text_0_run_on:
  "drop 3421 doc_text_0 = ''<span>RUN ON </span>'' @ [CHR 0x0A] @ ''            <span>''"
  by (simp add: doc_text_0_def)

lemma doc_text_0_ends:
  "tl doc_text_0 =
     take 3420 (tl doc_text_0) @ ''<span>RUN ON </span>'' @ [CHR 0x0A] @ ''            <span>''"
proof -
  have "drop 3420 (tl doc_text_0) = drop 3421 doc_text_0"
    using drop_Suc[of 3420 doc_text_0] by simp
  then show ?thesis
    using append_take_drop_id[of 3420 "tl doc_text_0"] doc_text_0_run_on by simp
qed

lemma doc_text_1_is:
  "doc_text_1 = ''</span>'' @ [CHR 0x0A] @ ''            <span> AT </span>'' @ [CHR 0x0A] @
     ''            <span>''"
  by (simp add: doc_text_1_def)

lemma doc_text_2_starts: "doc_text_2 = ''</span>'' @ drop 7 doc_text_2"
  by (simp add: doc_text_2_def)

lemma html_report_at_stamp:
  "\<exists>rest. \<forall>t. html_report_at t edr_data =
     (case rest of
        Inl ex \<Rightarrow> Inl ex
      | Inr b \<Rightarrow>
          Inr (tl doc_text_0 @ strftime_date t @ doc_text_1 @ strftime_time t @ doc_text_2 @ b))"
proof -
  let ?rest =
     "ebind (get_or_na edr_data ''demoId'') (\<lambda>event_number.
      ebind (get_or_na edr_data ''demoClassCode'') (\<lambda>event_type.
      ebind (get_or_na edr_data ''demoStatusCode'') (\<lambda>event_status.
      ebind (get_or_na edr_data ''demoDate'') (\<lambda>event_date.
      ebind (get_or_na edr_data ''demoName'') (\<lambda>event_name.
      ebind (get_or_na edr_data ''demoLockInd'') (\<lambda>event_locked.
      ebind (get_or_default edr_data ''demoInstructions'' (PDict [])) (\<lambda>instructions.
      ebind (get_or_na instructions ''demoPrepnTxt'') (\<lambda>event_prep.
      ebind (get_or_na instructions ''demoPortnTxt'') (\<lambda>event_portion.
      ebind (get_or_default edr_data ''itemDetails'' (PList [])) (\<lambda>item_details.
      ebind (py_iter item_details) (\<lambda>items.
      ebind (item_rows_loop [] items) (\<lambda>item_rows.
      Inr (py_str event_number @ doc_text_3 @ py_str event_type @
           doc_text_4 @ py_str event_locked @ doc_text_5 @ py_str event_status @
           doc_text_6 @ py_str event_date @ doc_text_7 @ py_str event_name @
           doc_text_8 @ py_str event_name @ doc_text_9 @ item_rows @ doc_text_10 @
           py_str event_prep @ doc_text_11 @ py_str event_portion @
           take 1192 doc_text_12)))))))))))))"
  have "\<forall>t. html_report_at t edr_data =
     (case ?rest of
        Inl ex \<Rightarrow> Inl ex
      | Inr b \<Rightarrow>
          Inr (tl doc_text_0 @ strftime_date t @ doc_text_1 @ strftime_time t @ doc_text_2 @ b))"
    by (simp add: html_report_at_def ebind_def strip_html_template split: sum.splits)
  then show ?thesis by blast
qed

text \<open>
  Claim C8.  The reading of the clock enters the document at one place, the header
  line \<open>RUN ON <date> AT <time>\<close>: for every record there is a remainder, the same at
  every run, such that the rendering in any environment and state is the fixed start
  of the template (which ends with \<open>RUN ON\<close> and the opening tag of the date), the
  date of the reading, the fixed separator \<open>AT\<close>, the time of the reading, and the
  remainder (which starts by closing the tag of the time); a record on which the
  renderer raises, raises the same exception at every run.  So two renderings of a
  record at the same reading of the clock are equal character by character, whatever
  the environment and the state are otherwise.  A rendering reads the clock once and
  changes nothing else of the state.
\<close>

theorem html_report_deterministic:
  "(\<exists>rest. \<forall>e1 s1.
      fst (generate_html_report e1 s1 edr_data) =
        (case rest of
           Inl ex \<Rightarrow> Inl ex
         | Inr b \<Rightarrow>
             Inr (take 3420 (tl doc_text_0) @
                  ''<span>RUN ON </span>'' @ [CHR 0x0A] @ ''            <span>'' @
                  strftime_date (clock e1 (clock_reads s1)) @
                  ''</span>'' @ [CHR 0x0A] @ ''            <span> AT </span>'' @ [CHR 0x0A] @
                  ''            <span>'' @
                  strftime_time (clock e1 (clock_reads s1)) @
                  ''</span>'' @ b))) \<and>
   (clock e (clock_reads s) = clock e' (clock_reads s') \<longrightarrow>
      fst (generate_html_report e s edr_data) = fst (generate_html_report e' s' edr_data)) \<and>
   snd (generate_html_report e s edr_data) = s\<lparr>clock_reads := Suc (clock_reads s)\<rparr>"
proof -
  obtain rest where r: "\<And>t. html_report_at t edr_data =
     (case rest of
        Inl ex \<Rightarrow> Inl ex
      | Inr b \<Rightarrow>
          Inr (tl doc_text_0 @ strftime_date t @ doc_text_1 @ strftime_time t @ doc_text_2 @ b))"
    using html_report_at_stamp by blast
  have g: "\<And>e1 s1. fst (generate_html_report e1 s1 edr_data) =
      html_report_at (clock e1 (clock_reads s1)) edr_data"
    by (simp add: generate_html_report_def now_def)
  have e0: "\<And>X. tl doc_text_0 @ X =
      take 3420 (tl doc_text_0) @
        ''<span>RUN ON </span>'' @ [CHR 0x0A] @ ''            <span>'' @ X"
    by (subst (1) doc_text_0_ends) (simp only: append_assoc)
  have e1: "\<And>X. doc_text_1 @ X =
      ''</span>'' @ [CHR 0x0A] @ ''            <span> AT </span>'' @ [CHR 0x0A] @
        ''            <span>'' @ X"
    by (simp only: doc_text_1_is append_assoc)
  have e2: "\<And>X. doc_text_2 @ X = ''</span>'' @ drop 7 doc_text_2 @ X"
    by (subst (1) doc_text_2_starts) (simp only: append_assoc)
  define rest' where
    "rest' = (case rest of Inl ex \<Rightarrow> Inl ex | Inr b \<Rightarrow> Inr (drop 7 doc_text_2 @ b))"
  have shape: "\<forall>e1 s1.
      fst (generate_html_report e1 s1 edr_data) =
        (case rest' of
           Inl ex \<Rightarrow> Inl ex
         | Inr b \<Rightarrow>
             Inr (take 3420 (tl doc_text_0) @
                  ''<span>RUN ON </span>'' @ [CHR 0x0A] @ ''            <span>'' @
                  strftime_date (clock e1 (clock_reads s1)) @
                  ''</span>'' @ [CHR 0x0A] @ ''            <span> AT </span>'' @ [CHR 0x0A] @
                  ''            <span>'' @
                  strftime_time (clock e1 (clock_reads s1)) @
                  ''</span>'' @ b))"
  proof (cases rest)
    case (Inl ex)
    then show ?thesis by (simp only: g r rest'_def sum.case) simp
  next
    case (Inr b)
    then show ?thesis by (simp only: g r rest'_def sum.case e0 e1 e2) simp
  qed
  have same: "clock e (clock_reads s) = clock e' (clock_reads s') \<longrightarrow>
      fst (generate_html_report e s edr_data) = fst (generate_html_report e' s' edr_data)"
    by (simp only: g) simp
  have once: "snd (generate_html_report e s edr_data) = s\<lparr>clock_reads := Suc (clock_reads s)\<rparr>"
    by (simp add: generate_html_report_def now_def)
  from shape same once show ?thesis by blast
qed

theorem html_report_deterministic_witness:
  "clock sample_env (clock_reads initial_state) =
     clock (sample_env\<lparr>platform_system := ''Windows''\<rparr>) (clock_reads (token_state\<lparr>clock_reads := 5\<rparr>)) \<and>
   fst (generate_html_report sample_env initial_state sample_event_data) =
     fst (generate_html_report (sample_env\<lparr>platform_system := ''Windows''\<rparr>)
            (token_state\<lparr>clock_reads := 5\<rparr>) sample_event_data) \<and>
   (\<exists>b. fst (generate_html_report sample_env initial_state sample_event_data) =
      Inr (take 3420 (tl doc_text_0) @
           ''<span>RUN ON </span>'' @ [CHR 0x0A] @ ''            <span>'' @
           ''2025-07-22'' @
           ''</span>'' @ [CHR 0x0A] @ ''            <span> AT </span>'' @ [CHR 0x0A] @
           ''            <span>'' @
           ''08:05:09'' @
           ''</span>'' @ b))"
proof -
  have h: "clock sample_env (clock_reads initial_state) =
     clock (sample_env\<lparr>platform_system := ''Windows''\<rparr>) (clock_reads (token_state\<lparr>clock_reads := 5\<rparr>))"
    by (simp add: sample_env_def)
  note main = html_report_deterministic[of sample_event_data sample_env initial_state
      "sample_env\<lparr>platform_system := ''Windows''\<rparr>" "token_state\<lparr>clock_reads := 5\<rparr>"]
  from main h have eq: "fst (generate_html_report sample_env initial_state sample_event_data) =
     fst (generate_html_report (sample_env\<lparr>platform_system := ''Windows''\<rparr>)
            (token_state\<lparr>clock_reads := 5\<rparr>) sample_event_data)"
    by blast
  from main obtain rest where shape: "\<forall>e1 s1.
      fst (generate_html_report e1 s1 sample_event_data) =
        (case rest of
           Inl ex \<Rightarrow> Inl ex
         | Inr b \<Rightarrow>
             Inr (take 3420 (tl doc_text_0) @
                  ''<span>RUN ON </span>'' @ [CHR 0x0A] @ ''            <span>'' @
                  strftime_date (clock e1 (clock_reads s1)) @
                  ''</span>'' @ [CHR 0x0A] @ ''            <span> AT </span>'' @ [CHR 0x0A] @
                  ''            <span>'' @
                  strftime_time (clock e1 (clock_reads s1)) @
                  ''</span>'' @ b))"
    by blast
  have ok: "\<exists>h. fst (generate_html_report sample_env initial_state sample_event_data) = Inr h"
    by (simp add: generate_html_report_def now_def sample_env_def html_report_sample)
  have c: "clock sample_env (clock_reads initial_state) = sample_time"
    by (simp add: sample_env_def)
  from shape[rule_format, of sample_env initial_state] ok
  obtain b where "rest = Inr b" by (cases rest) auto
  with shape[rule_format, of sample_env initial_state]
  have "fst (generate_html_report sample_env initial_state sample_event_data) =
      Inr (take 3420 (tl doc_text_0) @
           ''<span>RUN ON </span>'' @ [CHR 0x0A] @ ''            <span>'' @
           strftime_date sample_time @
           ''</span>'' @ [CHR 0x0A] @ ''            <span> AT </span>'' @ [CHR 0x0A] @
           ''            <span>'' @
           strftime_time sample_time @
           ''</span>'' @ b)"
    by (simp only: c sum.case)
  then have "fst (generate_html_report sample_env initial_state sample_event_data) =
      Inr (take 3420 (tl doc_text_0) @
           ''<span>RUN ON </span>'' @ [CHR 0x0A] @ ''            <span>'' @
           ''2025-07-22'' @
           ''</span>'' @ [CHR 0x0A] @ ''            <span> AT </span>'' @ [CHR 0x0A] @
           ''            <span>'' @
           ''08:05:09'' @
           ''</span>'' @ b)"
    by (simp only: sample_date sample_clock)
  with h eq show ?thesis by blast
qed

section \<open>The end-to-end scenario\<close>









section \<open>Printing and the temporary file\<close>

lemma lower_linux: "lower ''Linux'' = ''linux''"
  by (simp add: lower_def lower_char_def is_ascii_def)

lemma lower_windows: "lower ''Windows'' = ''windows''"
  by (simp add: lower_def lower_char_def is_ascii_def)

text \<open>
  Claim C4 says that whenever every print mechanism fails, the temporary file is gone
  when the print operation returns.  The deletion itself can fail, and the code
  ignores that failure: on the Windows host below no print command can be started and
  the file cannot be deleted; all three mechanisms fail, the operation answers
  \<open>False\<close>, and the temporary file is still on disk.
\<close>

theorem temp_file_left_when_delete_fails:
  "\<not> print_on_windows_simple
       (sample_env\<lparr>platform_system := ''Windows'', run_process := (\<lambda>argv. LaunchFailed),
                    remove_fails := (\<lambda>p. True)\<rparr>)
       ''/tmp/temp_edr_report_20250722_080509.html'' \<and>
   \<not> print_on_windows_advanced
       (sample_env\<lparr>platform_system := ''Windows'', run_process := (\<lambda>argv. LaunchFailed),
                    remove_fails := (\<lambda>p. True)\<rparr>)
       ''/tmp/temp_edr_report_20250722_080509.html'' \<and>
   \<not> print_on_windows_fallback
       (sample_env\<lparr>platform_system := ''Windows'', run_process := (\<lambda>argv. LaunchFailed),
                    remove_fails := (\<lambda>p. True)\<rparr>)
       ''/tmp/temp_edr_report_20250722_080509.html'' \<and>
   fst (print_html_report
       (sample_env\<lparr>platform_system := ''Windows'', run_process := (\<lambda>argv. LaunchFailed),
                    remove_fails := (\<lambda>p. True)\<rparr>)
       initial_state ''<html></html>'' None) = False \<and>
   files (snd (print_html_report
       (sample_env\<lparr>platform_system := ''Windows'', run_process := (\<lambda>argv. LaunchFailed),
                    remove_fails := (\<lambda>p. True)\<rparr>)
       initial_state ''<html></html>'' None))
     ''/tmp/temp_edr_report_20250722_080509.html'' = Some (Markup ''<html></html>'')"
  by (simp add: print_html_report_def print_on_windows_simple_def
      print_on_windows_advanced_def print_on_windows_fallback_def finish_print_def
      os_remove_def now_def sample_env_def initial_state_def sample_stamp lower_windows)

text \<open>
  Claim C4, amended.  On Windows, macOS and Linux: when the temporary file could be
  written, every mechanism of the platform fails (a command exits with an error
  status, runs out of time or cannot be started, which the mechanisms turn into the
  answer \<open>False\<close>) and the deletion of the temporary file does not itself fail, then
  the print operation answers \<open>False\<close> and the temporary file does not exist when it
  returns.
\<close>

theorem temp_file_removed_after_failed_print:
  assumes "p = path_join e (tempdir e)
                 (''temp_edr_report_'' @ strftime_stamp (clock e (clock_reads s)) @ ''.html'')"
      and "\<not> write_fails e p"
      and "\<not> remove_fails e p"
      and "(lower (platform_system e) = ''windows'' \<and> \<not> print_on_windows_simple e p \<and>
              \<not> print_on_windows_advanced e p \<and> \<not> print_on_windows_fallback e p) \<or>
           (lower (platform_system e) = ''darwin'' \<and> \<not> print_on_macos e p) \<or>
           (lower (platform_system e) = ''linux'' \<and> \<not> print_on_linux e p)"
  shows "fst (print_html_report e s html_content None) = False \<and>
         files (snd (print_html_report e s html_content None)) p = None"
  using assms
  by (auto simp: print_html_report_def finish_print_def os_remove_def now_def Let_def)

theorem temp_file_removed_after_failed_print_witness:
  "\<not> print_on_linux (sample_env\<lparr>run_process := (\<lambda>argv. LaunchFailed)\<rparr>)
       ''/tmp/temp_edr_report_20250722_080509.html'' \<and>
   fst (print_html_report (sample_env\<lparr>run_process := (\<lambda>argv. LaunchFailed)\<rparr>)
          initial_state ''<html></html>'' None) = False \<and>
   files (snd (print_html_report (sample_env\<lparr>run_process := (\<lambda>argv. LaunchFailed)\<rparr>)
          initial_state ''<html></html>'' None))
     ''/tmp/temp_edr_report_20250722_080509.html'' = None"
proof -
  let ?e = "sample_env\<lparr>run_process := (\<lambda>argv. LaunchFailed)\<rparr>"
  let ?p = "''/tmp/temp_edr_report_20250722_080509.html''"
  have h1: "?p = path_join ?e (tempdir ?e)
      (''temp_edr_report_'' @ strftime_stamp (clock ?e (clock_reads initial_state)) @ ''.html'')"
    by (simp add: sample_env_def sample_stamp)
  have h2: "\<not> write_fails ?e ?p" by (simp add: sample_env_def)
  have h3: "\<not> remove_fails ?e ?p" by (simp add: sample_env_def)
  have m: "\<not> print_on_linux ?e ?p" by (simp add: print_on_linux_def sample_env_def)
  have h4: "(lower (platform_system ?e) = ''windows'' \<and> \<not> print_on_windows_simple ?e ?p \<and>
              \<not> print_on_windows_advanced ?e ?p \<and> \<not> print_on_windows_fallback ?e ?p) \<or>
           (lower (platform_system ?e) = ''darwin'' \<and> \<not> print_on_macos ?e ?p) \<or>
           (lower (platform_system ?e) = ''linux'' \<and> \<not> print_on_linux ?e ?p)"
    using m by (simp add: sample_env_def lower_linux)
  from temp_file_removed_after_failed_print[OF h1 h2 h3 h4, of "''<html></html>''"] m
  show ?thesis by simp
qed

section \<open>A batch that processes nothing\<close>






section \<open>Batches\<close>

subsection \<open>What an operation leaves untouched\<close>











subsection \<open>The loop and the trace\<close>






lemma count_fetch_failures_le: "count_fetch_failures e n ids \<le> length ids"
  by (induction ids arbitrary: n) (simp_all add: le_SucI)


subsection \<open>The sample portal\<close>



















section \<open>The exit status of a batch\<close>

lemma exit_status_zero: "(exit_status r = 0) = (r = Inr True)"
  by (simp add: exit_status_def split: sum.splits)









subsection \<open>Runs against the sample portal\<close>









end
